theory Spec2Isabelle
  imports Main "HOL-Library.Sublist"
begin

section \<open>The dark colour theme of \<^verbatim>\<open>pygments-dark.py\<close>\<close>

subsection \<open>Token categories\<close>

text \<open>
  Modelled from the spec: the token categories are "a hierarchical enumeration ...
  defined and owned entirely by the external highlighting library"; the module
  \<^verbatim>\<open>pygments.token\<close> that the source imports them from is not among the sources.
  A token category is the path of names that leads to it from the root of the hierarchy,
  and reading an attribute with a capitalised name (\<^verbatim>\<open>Name.Class\<close>) gives the child of
  that name. Two categories are the same dictionary key exactly when their paths are equal.
\<close>

type_synonym token = "string list"

definition Token :: token where
  "Token = []"

definition getattr :: "token \<Rightarrow> string \<Rightarrow> token" where
  "getattr t n = t @ [n]"

text \<open>
  The thirteen names of
  \<^verbatim>\<open>from pygments.token import Keyword, Name, Comment, String, Error, Literal, Number,
  Operator, Other, Punctuation, Text, Generic, Whitespace\<close>.
  In the library \<^verbatim>\<open>String\<close> and \<^verbatim>\<open>Number\<close> are children of \<^verbatim>\<open>Literal\<close>, and
  \<^verbatim>\<open>Whitespace\<close> is a child of \<^verbatim>\<open>Text\<close>.
\<close>

definition Keyword :: token where
  "Keyword = getattr Token ''Keyword''"

definition Name :: token where
  "Name = getattr Token ''Name''"

definition Comment :: token where
  "Comment = getattr Token ''Comment''"

definition Error :: token where
  "Error = getattr Token ''Error''"

definition Literal :: token where
  "Literal = getattr Token ''Literal''"

definition String :: token where
  "String = getattr Literal ''String''"

definition Number :: token where
  "Number = getattr Literal ''Number''"

definition Operator :: token where
  "Operator = getattr Token ''Operator''"

definition Other :: token where
  "Other = getattr Token ''Other''"

definition Punctuation :: token where
  "Punctuation = getattr Token ''Punctuation''"

definition Text :: token where
  "Text = getattr Token ''Text''"

definition Generic :: token where
  "Generic = getattr Token ''Generic''"

definition Whitespace :: token where
  "Whitespace = getattr Text ''Whitespace''"

subsection \<open>Dictionary displays\<close>

text \<open>
  A Python dictionary keeps its items in insertion order. Storing under a key that is
  already present replaces the value and leaves the key where it is; a new key goes to the
  end. A dictionary display \<^verbatim>\<open>{k1: v1, k2: v2, ...}\<close> stores its items from left to right
  into an empty dictionary.
\<close>

type_synonym ('k, 'v) dict = "('k \<times> 'v) list"

fun setitem :: "('k, 'v) dict \<Rightarrow> 'k \<Rightarrow> 'v \<Rightarrow> ('k, 'v) dict" where
  "setitem [] k v = [(k, v)]"
| "setitem ((k', v') # d) k v = (if k' = k then (k, v) # d else (k', v') # setitem d k v)"

fun display_from :: "('k, 'v) dict \<Rightarrow> ('k \<times> 'v) list \<Rightarrow> ('k, 'v) dict" where
  "display_from d [] = d"
| "display_from d ((k, v) # items) = display_from (setitem d k v) items"

definition dict_display :: "('k \<times> 'v) list \<Rightarrow> ('k, 'v) dict" where
  "dict_display items = display_from [] items"

text \<open>Reading a key: \<open>None\<close> where Python raises \<^verbatim>\<open>KeyError\<close>.\<close>

definition getitem :: "('k, 'v) dict \<Rightarrow> 'k \<Rightarrow> 'v option" where
  "getitem d k = map_of d k"

subsection \<open>The class \<^verbatim>\<open>DarkStyle\<close>\<close>

text \<open>
  The class body binds four attributes. \<^verbatim>\<open>background_color = None\<close> is Python's
  \<^verbatim>\<open>None\<close>, so the field is an optional string.
\<close>

record style =
  background_color :: "string option"
  highlight_color :: string
  default_style :: string
  styles :: "(token, string) dict"

text \<open>The items of the display bound to \<^verbatim>\<open>styles\<close>, in the order they are written.\<close>

definition styles_items :: "(token \<times> string) list" where
  "styles_items =
    [(Comment, ''#686e78''),
     (getattr Comment ''Preproc'', ''#c67ada''),
     (getattr Comment ''PreprocFile'', ''#83a76e''),
     (Keyword, ''#c67ada''),
     (Name, ''#9daaaa''),
     (getattr Name ''Class'', ''#dbba75''),
     (getattr Name ''Builtin'', ''#dbba75''),
     (getattr Name ''Function'', ''#61afef''),
     (getattr Name ''Namespace'', ''#00997b''),
     (String, ''#83a76e''),
     (getattr String ''Char'', ''#83a76e''),
     (getattr String ''Escape'', ''#83a76e''),
     (getattr String ''Interpol'', ''#83a76e''),
     (Number, ''#d29767''),
     (Operator, ''#9daaaa''),
     (Punctuation, ''#9daaaa''),
     (getattr Name ''Builtin'', ''#dbba75''),
     (getattr Name ''Variable'', ''#9daaaa''),
     (getattr Name ''Tag'', ''bold #dcdcdc''),
     (getattr Name ''Attribute'', ''bold #dcdcdc''),
     (getattr Name ''Class'', ''bold #dcdcdc''),
     (getattr Operator ''Word'', ''bold #dcdcdc''),
     (getattr Generic ''Heading'', ''bold #ffffff''),
     (getattr Generic ''Emph'', ''italic #e6e6e6''),
     (getattr Generic ''Strong'', ''bold #e6e6e6''),
     (getattr Generic ''Subheading'', ''#5b9dd9''),
     (getattr Generic ''Inserted'', ''#3bd267''),
     (getattr Generic ''Deleted'', ''#cd3431'')]"

text \<open>The attributes that the class body binds, before the class is created.\<close>

definition DarkStyle_body :: style where
  "DarkStyle_body =
    \<lparr>background_color = None,
     highlight_color = ''#34424d'',
     default_style = '''',
     styles = dict_display styles_items\<rparr>"

subsection \<open>Creating the class\<close>

text \<open>
  \<^verbatim>\<open>class DarkStyle(Style)\<close> is created by the metaclass of its base class, \<^verbatim>\<open>StyleMeta\<close>.
  The base class belongs to the highlighting library, whose code is not among the sources;
  the model follows the library's \<^verbatim>\<open>style.py\<close> and \<^verbatim>\<open>token.py\<close>. Before anything else
  \<^verbatim>\<open>StyleMeta.__new__\<close> runs
  \<^verbatim>\<open>for token in STANDARD_TYPES: if token not in obj.styles: obj.styles[token] = ''\<close>
  on the dictionary of the class body, in place. \<^verbatim>\<open>STANDARD_TYPES\<close> is a dictionary from
  the library's standard token categories to short names; the loop reads its keys, in the
  order the library writes them. The other attributes are left as the class body binds
  them. The table of parsed styles that \<^verbatim>\<open>__new__\<close> computes afterwards is a further
  attribute of the class and is not modelled.
\<close>

definition STANDARD_TYPES :: "token list" where
  "STANDARD_TYPES =
    [Token,
     Text,
     Whitespace,
     getattr Token ''Escape'',
     Error,
     Other,
     Keyword,
     getattr Keyword ''Constant'',
     getattr Keyword ''Declaration'',
     getattr Keyword ''Namespace'',
     getattr Keyword ''Pseudo'',
     getattr Keyword ''Reserved'',
     getattr Keyword ''Type'',
     Name,
     getattr Name ''Attribute'',
     getattr Name ''Builtin'',
     getattr (getattr Name ''Builtin'') ''Pseudo'',
     getattr Name ''Class'',
     getattr Name ''Constant'',
     getattr Name ''Decorator'',
     getattr Name ''Entity'',
     getattr Name ''Exception'',
     getattr Name ''Function'',
     getattr (getattr Name ''Function'') ''Magic'',
     getattr Name ''Property'',
     getattr Name ''Label'',
     getattr Name ''Namespace'',
     getattr Name ''Other'',
     getattr Name ''Tag'',
     getattr Name ''Variable'',
     getattr (getattr Name ''Variable'') ''Class'',
     getattr (getattr Name ''Variable'') ''Global'',
     getattr (getattr Name ''Variable'') ''Instance'',
     getattr (getattr Name ''Variable'') ''Magic'',
     Literal,
     getattr Literal ''Date'',
     String,
     getattr String ''Affix'',
     getattr String ''Backtick'',
     getattr String ''Char'',
     getattr String ''Delimiter'',
     getattr String ''Doc'',
     getattr String ''Double'',
     getattr String ''Escape'',
     getattr String ''Heredoc'',
     getattr String ''Interpol'',
     getattr String ''Other'',
     getattr String ''Regex'',
     getattr String ''Single'',
     getattr String ''Symbol'',
     Number,
     getattr Number ''Bin'',
     getattr Number ''Float'',
     getattr Number ''Hex'',
     getattr Number ''Integer'',
     getattr (getattr Number ''Integer'') ''Long'',
     getattr Number ''Oct'',
     Operator,
     getattr Operator ''Word'',
     Punctuation,
     getattr Punctuation ''Marker'',
     Comment,
     getattr Comment ''Hashbang'',
     getattr Comment ''Multiline'',
     getattr Comment ''Preproc'',
     getattr Comment ''PreprocFile'',
     getattr Comment ''Single'',
     getattr Comment ''Special'',
     Generic,
     getattr Generic ''Deleted'',
     getattr Generic ''Emph'',
     getattr Generic ''Error'',
     getattr Generic ''Heading'',
     getattr Generic ''Inserted'',
     getattr Generic ''Output'',
     getattr Generic ''Prompt'',
     getattr Generic ''Strong'',
     getattr Generic ''Subheading'',
     getattr Generic ''EmphStrong'',
     getattr Generic ''Traceback'']"

fun fill_missing :: "(token, string) dict \<Rightarrow> token list \<Rightarrow> (token, string) dict" where
  "fill_missing d [] = d"
| "fill_missing d (t # ts) =
     fill_missing (if getitem d t = None then setitem d t '''' else d) ts"

definition StyleMeta_new :: "style \<Rightarrow> style" where
  "StyleMeta_new obj = obj\<lparr>styles := fill_missing (styles obj) STANDARD_TYPES\<rparr>"

definition DarkStyle :: style where
  "DarkStyle = StyleMeta_new DarkStyle_body"

subsection \<open>Declarations of a key\<close>

text \<open>
  The values that the items as written give to a key, in the order they are written, and
  the last of them.
\<close>

definition declared :: "('k \<times> 'v) list \<Rightarrow> 'k \<Rightarrow> 'v list" where
  "declared items k = map snd (filter (\<lambda>(k', v). k' = k) items)"

definition last_declared :: "('k \<times> 'v) list \<Rightarrow> 'k \<Rightarrow> 'v option" where
  "last_declared items k =
     (case declared items k of [] \<Rightarrow> None | v # vs \<Rightarrow> Some (last (v # vs)))"

subsection \<open>The grammar of style specs\<close>

text \<open>
  The specification's grammar of a style spec: zero or more whitespace-separated modifier
  keywords, \<^verbatim>\<open>bold\<close> or \<^verbatim>\<open>italic\<close>, followed by an optional colour literal, a \<^verbatim>\<open>#\<close> and
  exactly six hexadecimal digits. The words of a string are its maximal runs of characters
  that are not whitespace.
\<close>

definition is_space :: "char \<Rightarrow> bool" where
  "is_space c = (c \<in> set [CHR '' '', CHR 0x09, CHR 0x0A, CHR 0x0B, CHR 0x0C, CHR 0x0D])"

fun words_from :: "string \<Rightarrow> string \<Rightarrow> string list" where
  "words_from w [] = (if w = [] then [] else [w])"
| "words_from w (c # cs) =
     (if is_space c then (if w = [] then words_from [] cs else w # words_from [] cs)
      else words_from (w @ [c]) cs)"

definition words_of :: "string \<Rightarrow> string list" where
  "words_of s = words_from [] s"

definition is_modifier :: "string \<Rightarrow> bool" where
  "is_modifier w = (w = ''bold'' \<or> w = ''italic'')"

definition is_hexdigit :: "char \<Rightarrow> bool" where
  "is_hexdigit c = (c \<in> set ''0123456789abcdefABCDEF'')"

definition is_color :: "string \<Rightarrow> bool" where
  "is_color w =
     (case w of [] \<Rightarrow> False
      | c # ds \<Rightarrow> c = CHR ''#'' \<and> length ds = 6 \<and> list_all is_hexdigit ds)"

text \<open>The bare modifier form: modifiers alone, with no colour.\<close>

definition bare_modifiers :: "string \<Rightarrow> bool" where
  "bare_modifiers s = list_all is_modifier (words_of s)"

text \<open>The form with a colour: modifiers, then one colour literal as the last word.\<close>

definition modifiers_then_color :: "string \<Rightarrow> bool" where
  "modifiers_then_color s =
     (let ws = words_of s
      in ws \<noteq> [] \<and> list_all is_modifier (butlast ws) \<and> is_color (last ws))"

definition style_spec_ok :: "string \<Rightarrow> bool" where
  "style_spec_ok s = (modifiers_then_color s \<or> bare_modifiers s)"

text \<open>The number of colour literals among the words of a style spec.\<close>

definition color_count :: "string \<Rightarrow> nat" where
  "color_count s = length (filter is_color (words_of s))"

subsection \<open>The vocabulary of the table\<close>

text \<open>
  A category is a subcategory of another, or that category itself, when the other's path
  begins its own. The vocabulary of the table: the eight imported categories that the
  table uses, and everything below them.
\<close>

definition table_categories :: "token list" where
  "table_categories = [Comment, Keyword, Name, String, Number, Operator, Punctuation, Generic]"

definition in_vocabulary :: "token \<Rightarrow> bool" where
  "in_vocabulary k = list_ex (\<lambda>t. prefix t k) table_categories"

section \<open>Evaluating the definitions\<close>

lemmas token_defs =
  Token_def getattr_def Keyword_def Name_def Comment_def Error_def Literal_def String_def
  Number_def Operator_def Other_def Punctuation_def Text_def Generic_def Whitespace_def

lemmas grammar_defs =
  words_of_def is_space_def is_modifier_def is_hexdigit_def is_color_def bare_modifiers_def
  modifiers_then_color_def style_spec_ok_def color_count_def

section \<open>Dictionary displays: the last declaration of a key is the one read\<close>

lemma getitem_setitem: "getitem (setitem d k v) = (getitem d)(k \<mapsto> v)"
  by (induction d k v rule: setitem.induct) (auto simp: getitem_def fun_eq_iff)

lemma declared_Cons:
  "declared ((k', v) # items) k = (if k' = k then v # declared items k else declared items k)"
  by (simp add: declared_def)

lemma getitem_display_from:
  "getitem (display_from d items) k =
     (case last_declared items k of None \<Rightarrow> getitem d k | Some v \<Rightarrow> Some v)"
proof (induction d items rule: display_from.induct)
  case (1 d)
  show ?case by (simp add: last_declared_def declared_def)
next
  case (2 d k' v items)
  then show ?case
    by (auto simp: getitem_setitem last_declared_def declared_Cons
        split: list.splits option.splits)
qed

lemma getitem_dict_display: "getitem (dict_display items) k = last_declared items k"
  using getitem_display_from [of "[]" items k]
  by (simp add: dict_display_def getitem_def split: option.splits)

lemma count_list_keys: "count_list (map fst items) k = length (declared items k)"
  by (induction items) (auto simp: declared_Cons declared_def)

text \<open>The keys of a dictionary are distinct, and they are the keys of the items.\<close>

lemma keys_setitem:
  "map fst (setitem d k v) = (if k \<in> set (map fst d) then map fst d else map fst d @ [k])"
  by (induction d k v rule: setitem.induct) auto

lemma distinct_keys_display_from:
  "distinct (map fst d) \<Longrightarrow> distinct (map fst (display_from d items))"
  by (induction d items rule: display_from.induct) (auto simp: keys_setitem)

lemma set_keys_display_from:
  "set (map fst (display_from d items)) = set (map fst d) \<union> set (map fst items)"
  by (induction d items rule: display_from.induct) (auto simp: keys_setitem)

lemma distinct_keys_dict_display: "distinct (map fst (dict_display items))"
  by (simp add: dict_display_def distinct_keys_display_from)

text \<open>
  Writing a dictionary out as a display of its own items and evaluating that display gives
  the dictionary back: evaluating a display is idempotent.
\<close>

lemma setitem_fresh: "k \<notin> set (map fst d) \<Longrightarrow> setitem d k v = d @ [(k, v)]"
  by (induction d k v rule: setitem.induct) auto

lemma display_from_distinct:
  "distinct (map fst (d @ items)) \<Longrightarrow> display_from d items = d @ items"
proof (induction d items rule: display_from.induct)
  case (1 d)
  show ?case by simp
next
  case (2 d k v items)
  from "2.prems" have fresh: "k \<notin> set (map fst d)" by auto
  then have step: "setitem d k v = d @ [(k, v)]" by (rule setitem_fresh)
  from "2.prems" have "distinct (map fst ((d @ [(k, v)]) @ items))" by simp
  with "2.IH" step show ?case by simp
qed

lemma dict_display_idem: "dict_display (dict_display items) = dict_display items"
  using display_from_distinct [of "[]" "dict_display items"] distinct_keys_dict_display [of items]
  by (simp add: dict_display_def)

section \<open>The dictionary of the class\<close>

text \<open>
  Filling in the standard categories leaves every key that is present as it is and gives
  the empty style spec to the standard categories that are missing.
\<close>

lemma getitem_fill_missing:
  "getitem (fill_missing d ts) k =
     (case getitem d k of Some v \<Rightarrow> Some v
      | None \<Rightarrow> if k \<in> set ts then Some '''' else None)"
proof (induction d ts rule: fill_missing.induct)
  case (1 d)
  show ?case by (simp split: option.splits)
next
  case (2 d t ts)
  then show ?case
    by (auto simp: getitem_setitem split: option.splits)
qed

lemma getitem_styles_DarkStyle:
  "getitem (styles DarkStyle) k =
     (case last_declared styles_items k of Some v \<Rightarrow> Some v
      | None \<Rightarrow> if k \<in> set STANDARD_TYPES then Some '''' else None)"
  by (simp add: DarkStyle_def StyleMeta_new_def DarkStyle_body_def getitem_fill_missing
      getitem_dict_display)

text \<open>The values of the dictionary are values written in the table, or the empty spec.\<close>

lemma values_setitem: "set (map snd (setitem d k v)) \<subseteq> insert v (set (map snd d))"
  by (induction d k v rule: setitem.induct) auto

lemma values_display_from:
  "set (map snd (display_from d items)) \<subseteq> set (map snd d) \<union> set (map snd items)"
proof (induction d items rule: display_from.induct)
  case (1 d)
  show ?case by simp
next
  case (2 d k v items)
  from "2.IH" values_setitem [of d k v]
  have "set (map snd (display_from (setitem d k v) items))
          \<subseteq> insert v (set (map snd d)) \<union> set (map snd items)"
    by blast
  then show ?case by simp
qed

lemma values_fill_missing:
  "set (map snd (fill_missing d ts)) \<subseteq> insert [] (set (map snd d))"
proof (induction d ts rule: fill_missing.induct)
  case (1 d)
  show ?case by auto
next
  case (2 d t ts)
  show ?case
  proof (cases "getitem d t = None")
    case True
    with "2.IH" values_setitem [of d t "[]"]
    have "set (map snd (fill_missing (setitem d t []) ts)) \<subseteq> insert [] (set (map snd d))"
      by auto
    with True show ?thesis by simp
  next
    case False
    with "2.IH" show ?thesis by auto
  qed
qed

lemma values_styles_DarkStyle:
  "set (map snd (styles DarkStyle)) \<subseteq> insert [] (set (map snd styles_items))"
  using values_fill_missing [of "dict_display styles_items" STANDARD_TYPES]
    values_display_from [of "[]" styles_items]
  by (auto simp: DarkStyle_def StyleMeta_new_def DarkStyle_body_def dict_display_def)

text \<open>A key that the items declare has a last declaration, one of the values written.\<close>

lemma declared_nonempty: "k \<in> set (map fst items) \<Longrightarrow> declared items k \<noteq> []"
  by (auto simp: declared_def filter_empty_conv)

lemma declared_subset: "set (declared items k) \<subseteq> set (map snd items)"
  by (auto simp: declared_def)

lemma last_declared_written:
  assumes "k \<in> set (map fst items)"
  shows "\<exists>v \<in> set (map snd items). last_declared items k = Some v"
proof -
  from assms have ne: "declared items k \<noteq> []"
    by (rule declared_nonempty)
  then have "last (declared items k) \<in> set (declared items k)"
    by (rule last_in_set)
  with declared_subset [of items k] have "last (declared items k) \<in> set (map snd items)"
    by blast
  moreover from ne have "last_declared items k = Some (last (declared items k))"
    by (simp add: last_declared_def split: list.splits)
  ultimately show ?thesis by blast
qed

section \<open>The scalar settings\<close>

text \<open>
  C4: the style's \<^verbatim>\<open>highlight_color\<close> setting equals the string \<^verbatim>\<open>#34424d\<close>.
\<close>

theorem highlight_color_DarkStyle: "highlight_color DarkStyle = ''#34424d''"
  by (simp add: DarkStyle_def StyleMeta_new_def DarkStyle_body_def)

text \<open>
  C5: the style's \<^verbatim>\<open>background_color\<close> setting is the unset sentinel: it carries no
  colour value.
\<close>

theorem background_color_DarkStyle_unset:
  "background_color DarkStyle = None \<and> (\<nexists>c. background_color DarkStyle = Some c)"
  by (simp add: DarkStyle_def StyleMeta_new_def DarkStyle_body_def)

text \<open>
  C6: the style's \<^verbatim>\<open>default_style\<close> fallback setting is the empty string.
\<close>

theorem default_style_DarkStyle_empty:
  "default_style DarkStyle = '''' \<and> length (default_style DarkStyle) = 0"
  by (simp add: DarkStyle_def StyleMeta_new_def DarkStyle_body_def)

section \<open>Duplicate keys\<close>

text \<open>
  C1: for every token category that appears more than once in the styles table, the
  effective value in the resulting mapping equals the last-declared value; in particular
  \<^verbatim>\<open>Name.Builtin\<close> resolves to \<^verbatim>\<open>#dbba75\<close> and \<^verbatim>\<open>Name.Class\<close> resolves to
  \<^verbatim>\<open>bold #dcdcdc\<close>.
\<close>

theorem styles_last_declared_wins:
  "(\<forall>k. 1 < count_list (map fst styles_items) k \<longrightarrow>
        getitem (styles DarkStyle) k = Some (last (declared styles_items k)))
   \<and> getitem (styles DarkStyle) (getattr Name ''Builtin'') = Some ''#dbba75''
   \<and> getitem (styles DarkStyle) (getattr Name ''Class'') = Some ''bold #dcdcdc''"
proof (intro conjI allI impI)
  fix k :: token
  assume "1 < count_list (map fst styles_items) k"
  then have "declared styles_items k \<noteq> []"
    by (auto simp: count_list_keys)
  then have "last_declared styles_items k = Some (last (declared styles_items k))"
    by (simp add: last_declared_def split: list.splits)
  then show "getitem (styles DarkStyle) k = Some (last (declared styles_items k))"
    by (simp add: getitem_styles_DarkStyle)
next
  show "getitem (styles DarkStyle) (getattr Name ''Builtin'') = Some ''#dbba75''"
    by (simp add: getitem_styles_DarkStyle last_declared_def declared_def styles_items_def
        token_defs)
next
  show "getitem (styles DarkStyle) (getattr Name ''Class'') = Some ''bold #dcdcdc''"
    by (simp add: getitem_styles_DarkStyle last_declared_def declared_def styles_items_def
        token_defs)
qed

text \<open>The theorem at \<^verbatim>\<open>Name.Class\<close>, which the table declares twice.\<close>

theorem styles_last_declared_wins_witness:
  "1 < count_list (map fst styles_items) (getattr Name ''Class'')
   \<and> getitem (styles DarkStyle) (getattr Name ''Class'')
       = Some (last (declared styles_items (getattr Name ''Class'')))"
proof -
  have twice: "1 < count_list (map fst styles_items) (getattr Name ''Class'')"
    by (simp add: styles_items_def token_defs)
  from styles_last_declared_wins
  have "\<forall>k. 1 < count_list (map fst styles_items) k \<longrightarrow>
          getitem (styles DarkStyle) k = Some (last (declared styles_items k))"
    by (rule conjunct1)
  with twice show ?thesis by blast
qed

text \<open>
  The claim C2 says that \<^verbatim>\<open>Name.Class\<close> and \<^verbatim>\<open>Name.Builtin\<close> each appear exactly twice
  and that the two values declared for each differ. \<^verbatim>\<open>Name.Builtin\<close> does appear twice,
  but both of its declarations give \<^verbatim>\<open>#dbba75\<close>.
\<close>

theorem Name_Builtin_declared_values_equal:
  "count_list (map fst styles_items) (getattr Name ''Builtin'') = 2
   \<and> declared styles_items (getattr Name ''Builtin'') = [''#dbba75'', ''#dbba75'']
   \<and> \<not> distinct (declared styles_items (getattr Name ''Builtin''))"
  by (simp add: declared_def styles_items_def token_defs)

text \<open>
  C2, amended: \<^verbatim>\<open>Name.Class\<close> and \<^verbatim>\<open>Name.Builtin\<close> each appear exactly twice in the
  table as written. The two values declared for \<^verbatim>\<open>Name.Class\<close> differ, \<^verbatim>\<open>#dbba75\<close> then
  \<^verbatim>\<open>bold #dcdcdc\<close>; the two declared for \<^verbatim>\<open>Name.Builtin\<close> are both \<^verbatim>\<open>#dbba75\<close>. For each
  key the second declaration is the one in effect.
\<close>

theorem duplicated_keys_declarations:
  "count_list (map fst styles_items) (getattr Name ''Class'') = 2 \<and>
   count_list (map fst styles_items) (getattr Name ''Builtin'') = 2 \<and>
   declared styles_items (getattr Name ''Class'') = [''#dbba75'', ''bold #dcdcdc''] \<and>
   declared styles_items (getattr Name ''Builtin'') = [''#dbba75'', ''#dbba75''] \<and>
   getitem (styles DarkStyle) (getattr Name ''Class'') = Some ''bold #dcdcdc'' \<and>
   getitem (styles DarkStyle) (getattr Name ''Builtin'') = Some ''#dbba75''"
  by (simp add: getitem_styles_DarkStyle last_declared_def declared_def styles_items_def
      token_defs)

section \<open>The style specs of the table\<close>

text \<open>
  C3: every style-spec string in the table matches the grammar: zero or more
  whitespace-separated modifier keywords drawn from \<^verbatim>\<open>bold\<close> and \<^verbatim>\<open>italic\<close>, followed by
  an optional \<^verbatim>\<open>#\<close> and exactly six hexadecimal digits; that is, each value is modifiers
  and then a colour, or modifiers alone with no colour. It holds of the values as written
  and of the values of the dictionary.
\<close>

theorem styles_values_match_grammar:
  "(\<forall>v \<in> set (map snd styles_items). style_spec_ok v)
   \<and> (\<forall>v \<in> set (map snd (styles DarkStyle)). style_spec_ok v)"
proof (intro conjI ballI)
  have written: "\<forall>v \<in> set (map snd styles_items). style_spec_ok v"
    by (simp add: styles_items_def grammar_defs)
  have empty: "style_spec_ok ''''"
    by (simp add: grammar_defs)
  {
    fix v
    assume "v \<in> set (map snd styles_items)"
    with written show "style_spec_ok v"
      by (rule bspec)
  }
  fix v
  assume "v \<in> set (map snd (styles DarkStyle))"
  with values_styles_DarkStyle have "v = '''' \<or> v \<in> set (map snd styles_items)"
    by blast
  with written empty show "style_spec_ok v"
    by blast
qed

text \<open>The theorem at the value \<^verbatim>\<open>bold #dcdcdc\<close>, which is written in the table.\<close>

theorem styles_values_match_grammar_witness:
  "''bold #dcdcdc'' \<in> set (map snd styles_items) \<and> style_spec_ok ''bold #dcdcdc''"
proof -
  have written: "''bold #dcdcdc'' \<in> set (map snd styles_items)"
    by (simp add: styles_items_def)
  from styles_values_match_grammar
  have "\<forall>v \<in> set (map snd styles_items). style_spec_ok v"
    by (rule conjunct1)
  from this written have "style_spec_ok ''bold #dcdcdc''"
    by (rule bspec)
  with written show ?thesis
    by (rule conjI)
qed

text \<open>
  The claim C9 says that every style-spec string in the effective mapping contains exactly
  one colour literal and that the bare modifier form never occurs. The table does not list
  the standard category \<^verbatim>\<open>Error\<close>, so creating the class stores the empty style spec under
  it: a value of the dictionary with no colour literal, of the bare modifier form.
\<close>

theorem Error_style_spec_without_color:
  "getitem (styles DarkStyle) Error = Some ''''
   \<and> '''' \<in> set (map snd (styles DarkStyle))
   \<and> color_count '''' = 0
   \<and> bare_modifiers ''''"
proof -
  have read: "getitem (styles DarkStyle) Error = Some ''''"
    by (simp add: getitem_styles_DarkStyle last_declared_def declared_def styles_items_def
        STANDARD_TYPES_def token_defs)
  then have "(Error, '''') \<in> set (styles DarkStyle)"
    by (simp add: getitem_def map_of_SomeD)
  then have "'''' \<in> set (map snd (styles DarkStyle))"
    by force
  moreover have "color_count '''' = 0" and "bare_modifiers ''''"
    by (simp_all add: grammar_defs)
  ultimately show ?thesis
    using read by blast
qed

text \<open>
  C9, amended: every style-spec string written in the table contains exactly one colour
  literal and is never of the bare modifier form, so every token category listed in the
  table is assigned an explicit foreground colour: reading it in the dictionary of the
  class gives such a style spec.
\<close>

theorem styles_listed_keys_one_color:
  "(\<forall>v \<in> set (map snd styles_items). color_count v = 1 \<and> \<not> bare_modifiers v)
   \<and> (\<forall>k \<in> set (map fst styles_items).
         \<exists>v. getitem (styles DarkStyle) k = Some v \<and> color_count v = 1 \<and> \<not> bare_modifiers v)"
proof (intro conjI ballI)
  have written: "\<forall>v \<in> set (map snd styles_items). color_count v = 1 \<and> \<not> bare_modifiers v"
    by (simp add: styles_items_def grammar_defs)
  {
    fix v
    assume "v \<in> set (map snd styles_items)"
    with written show "color_count v = 1" and "\<not> bare_modifiers v"
      by blast+
  }
  fix k
  assume listed: "k \<in> set (map fst styles_items)"
  from last_declared_written [OF listed]
  obtain v where v: "v \<in> set (map snd styles_items)"
    and last: "last_declared styles_items k = Some v"
    by blast
  from last have "getitem (styles DarkStyle) k = Some v"
    by (simp add: getitem_styles_DarkStyle)
  moreover from written v have "color_count v = 1 \<and> \<not> bare_modifiers v"
    by (rule bspec)
  ultimately
  show "\<exists>v. getitem (styles DarkStyle) k = Some v \<and> color_count v = 1 \<and> \<not> bare_modifiers v"
    by blast
qed

text \<open>
  The theorem at the written value \<^verbatim>\<open>bold #dcdcdc\<close> and at the key \<^verbatim>\<open>Name.Class\<close>.
\<close>

theorem styles_listed_keys_one_color_witness:
  "''bold #dcdcdc'' \<in> set (map snd styles_items)
   \<and> color_count ''bold #dcdcdc'' = 1 \<and> \<not> bare_modifiers ''bold #dcdcdc''
   \<and> getattr Name ''Class'' \<in> set (map fst styles_items)
   \<and> (\<exists>v. getitem (styles DarkStyle) (getattr Name ''Class'') = Some v
          \<and> color_count v = 1 \<and> \<not> bare_modifiers v)"
proof -
  have val: "''bold #dcdcdc'' \<in> set (map snd styles_items)"
    by (simp add: styles_items_def)
  have key: "getattr Name ''Class'' \<in> set (map fst styles_items)"
    by (simp add: styles_items_def)
  from styles_listed_keys_one_color val
  have "color_count ''bold #dcdcdc'' = 1 \<and> \<not> bare_modifiers ''bold #dcdcdc''"
    by blast
  moreover from styles_listed_keys_one_color key
  have "\<exists>v. getitem (styles DarkStyle) (getattr Name ''Class'') = Some v
          \<and> color_count v = 1 \<and> \<not> bare_modifiers v"
    by blast
  ultimately show ?thesis
    using val key by blast
qed

text \<open>
  C10: in the effective mapping, the token categories \<^verbatim>\<open>String\<close>, \<^verbatim>\<open>String.Char\<close>,
  \<^verbatim>\<open>String.Escape\<close>, \<^verbatim>\<open>String.Interpol\<close> and \<^verbatim>\<open>Comment.PreprocFile\<close> are all assigned the
  identical style spec \<^verbatim>\<open>#83a76e\<close>.
\<close>

theorem String_family_same_color:
  "getitem (styles DarkStyle) String = Some ''#83a76e'' \<and>
   getitem (styles DarkStyle) (getattr String ''Char'') = Some ''#83a76e'' \<and>
   getitem (styles DarkStyle) (getattr String ''Escape'') = Some ''#83a76e'' \<and>
   getitem (styles DarkStyle) (getattr String ''Interpol'') = Some ''#83a76e'' \<and>
   getitem (styles DarkStyle) (getattr Comment ''PreprocFile'') = Some ''#83a76e''"
  by (simp add: getitem_styles_DarkStyle last_declared_def declared_def styles_items_def
      token_defs)

section \<open>The keys of the table\<close>

text \<open>
  C8: every key of the styles table is one of the imported token categories
  \<^verbatim>\<open>Comment\<close>, \<^verbatim>\<open>Keyword\<close>, \<^verbatim>\<open>Name\<close>, \<^verbatim>\<open>String\<close>, \<^verbatim>\<open>Number\<close>, \<^verbatim>\<open>Operator\<close>,
  \<^verbatim>\<open>Punctuation\<close>, \<^verbatim>\<open>Generic\<close> or a hierarchical subcategory of one of them; no key outside
  that vocabulary occurs in the table.
\<close>

theorem styles_keys_in_vocabulary:
  "\<forall>k \<in> set (map fst styles_items). in_vocabulary k"
  by (simp add: styles_items_def token_defs in_vocabulary_def table_categories_def)

text \<open>The theorem at the key \<^verbatim>\<open>Name.Class\<close>, a subcategory of \<^verbatim>\<open>Name\<close>.\<close>

theorem styles_keys_in_vocabulary_witness:
  "getattr Name ''Class'' \<in> set (map fst styles_items) \<and> in_vocabulary (getattr Name ''Class'')"
proof -
  have key: "getattr Name ''Class'' \<in> set (map fst styles_items)"
    by (simp add: styles_items_def)
  from styles_keys_in_vocabulary key have "in_vocabulary (getattr Name ''Class'')"
    by (rule bspec)
  with key show ?thesis
    by (rule conjI)
qed

end
